theory Spec2Isabelle
  imports Complex_Main "HOL-Library.Char_ord" "HOL-Library.List_Lexorder" "HOL-Library.Word"
begin

section \<open>Numbers of a data frame\<close>

text \<open>
  The report generator of \<^verbatim>\<open>financial_report.py\<close> works on a pandas data frame. A cell
  of a float column is a 64-bit float, modelled as an exact real number or one of the
  three special values of IEEE arithmetic: the rounding of the binary representation
  and the sign of zero are not modelled, so a value computed here and the value the
  program computes can differ by the rounding error of the floating-point operations.
  A cell of an integer column is a 64-bit integer, a word, whose arithmetic wraps.
\<close>

datatype fnum = Fin real | PosInf | NegInf | NaN

fun is_nan :: "fnum \<Rightarrow> bool" where
  "is_nan NaN = True"
| "is_nan _ = False"

fun is_zero :: "fnum \<Rightarrow> bool" where
  "is_zero (Fin a) = (a = 0)"
| "is_zero _ = False"

fun is_neg :: "fnum \<Rightarrow> bool" where
  "is_neg (Fin a) = (a < 0)"
| "is_neg NegInf = True"
| "is_neg _ = False"

fun fneg :: "fnum \<Rightarrow> fnum" where
  "fneg (Fin a) = Fin (- a)"
| "fneg PosInf = NegInf"
| "fneg NegInf = PosInf"
| "fneg NaN = NaN"

fun fadd :: "fnum \<Rightarrow> fnum \<Rightarrow> fnum" where
  "fadd (Fin a) (Fin b) = Fin (a + b)"
| "fadd NaN _ = NaN"
| "fadd _ NaN = NaN"
| "fadd PosInf NegInf = NaN"
| "fadd NegInf PosInf = NaN"
| "fadd PosInf _ = PosInf"
| "fadd _ PosInf = PosInf"
| "fadd NegInf _ = NegInf"
| "fadd _ NegInf = NegInf"

definition fsub :: "fnum \<Rightarrow> fnum \<Rightarrow> fnum" where
  "fsub a b = fadd a (fneg b)"

fun fmul :: "fnum \<Rightarrow> fnum \<Rightarrow> fnum" where
  "fmul (Fin a) (Fin b) = Fin (a * b)"
| "fmul NaN _ = NaN"
| "fmul _ NaN = NaN"
| "fmul x y = (if is_zero x \<or> is_zero y then NaN
               else if is_neg x = is_neg y then PosInf else NegInf)"

fun fdiv :: "fnum \<Rightarrow> fnum \<Rightarrow> fnum" where
  "fdiv (Fin a) (Fin b) =
     (if b \<noteq> 0 then Fin (a / b)
      else if a = 0 then NaN
      else if 0 < a then PosInf else NegInf)"
| "fdiv NaN _ = NaN"
| "fdiv _ NaN = NaN"
| "fdiv (Fin a) _ = Fin 0"
| "fdiv x (Fin b) = (if is_neg x = (b < 0) then PosInf else NegInf)"
| "fdiv _ _ = NaN"

fun fabs :: "fnum \<Rightarrow> fnum" where
  "fabs (Fin a) = Fin \<bar>a\<bar>"
| "fabs NaN = NaN"
| "fabs _ = PosInf"

fun fsqrt :: "fnum \<Rightarrow> fnum" where
  "fsqrt (Fin a) = (if a < 0 then NaN else Fin (sqrt a))"
| "fsqrt PosInf = PosInf"
| "fsqrt _ = NaN"

text \<open>Comparisons with NaN are false, as in IEEE arithmetic.\<close>

fun fless :: "fnum \<Rightarrow> fnum \<Rightarrow> bool" where
  "fless (Fin a) (Fin b) = (a < b)"
| "fless NaN _ = False"
| "fless _ NaN = False"
| "fless NegInf b = (b \<noteq> NegInf)"
| "fless a PosInf = (a \<noteq> PosInf)"
| "fless _ _ = False"

definition fgreater :: "fnum \<Rightarrow> fnum \<Rightarrow> bool" where
  "fgreater a b = fless b a"

text \<open>
  \<^verbatim>\<open>round(2)\<close> of numpy: scale by 100, round to the nearest integer with ties going
  to the even one, scale back. Here the exact value is rounded; numpy rounds the binary
  value, and the two results can differ by one unit of the second decimal where the
  exact value scaled by 100 is at, or within rounding error of, a half.
\<close>

definition rint :: "real \<Rightarrow> int" where
  "rint y =
     (let f = \<lfloor>y\<rfloor>; d = y - of_int f
      in if d < 1 / 2 then f
         else if 1 / 2 < d then f + 1
         else if even f then f else f + 1)"

fun round2 :: "fnum \<Rightarrow> fnum" where
  "round2 (Fin a) = Fin (of_int (rint (a * 100)) / 100)"
| "round2 x = x"

section \<open>Columns and data frames\<close>

text \<open>
  A column has one of four dtypes: floats, 64-bit integers (an integer column has no
  missing cell), Python objects (the strings of a CSV file, \<open>None\<close> for a missing
  cell), or timestamps (the \<^verbatim>\<open>Date\<close> column after \<^verbatim>\<open>load_data\<close>, \<open>None\<close> for NaT). A
  data frame is the list of its named columns; a loaded frame has distinct names and
  columns of one length.
\<close>

datatype column =
    Float64 "fnum list"
  | Int64 "64 word list"
  | Object "string option list"
  | Datetime64 "int option list"

type_synonym dataframe = "(string \<times> column) list"

datatype error =
    ValueError string
  | KeyError "string list"
  | TypeError

fun col_len :: "column \<Rightarrow> nat" where
  "col_len (Float64 xs) = length xs"
| "col_len (Int64 xs) = length xs"
| "col_len (Object xs) = length xs"
| "col_len (Datetime64 xs) = length xs"

definition columns :: "dataframe \<Rightarrow> string list" where
  "columns df = map fst df"

definition bindE :: "error + 'a \<Rightarrow> ('a \<Rightarrow> error + 'b) \<Rightarrow> error + 'b" where
  "bindE m f = (case m of Inl e \<Rightarrow> Inl e | Inr x \<Rightarrow> f x)"

text \<open>\<^verbatim>\<open>df[name]\<close>: the column, or pandas' KeyError carrying the name.\<close>

definition getitem :: "dataframe \<Rightarrow> string \<Rightarrow> error + column" where
  "getitem df name =
     (case map_of df name of None \<Rightarrow> Inl (KeyError [name]) | Some c \<Rightarrow> Inr c)"

text \<open>\<^verbatim>\<open>df[name] = col\<close>: replaces the column of that name, or appends a new one.\<close>

fun setitem :: "dataframe \<Rightarrow> string \<Rightarrow> column \<Rightarrow> dataframe" where
  "setitem [] name c = [(name, c)]"
| "setitem ((k, v) # df) name c =
     (if k = name then (k, c) # df else (k, v) # setitem df name c)"

subsection \<open>A column as numbers\<close>

text \<open>
  The value of an integer cell as a number, and the cells of a column as the floats that
  float arithmetic, \<^verbatim>\<open>mean\<close> and \<^verbatim>\<open>std\<close> work on: the cells of a float column, the
  values of an integer column, NaN for the cells of an object column that has no string
  (then every cell is missing). A string in the column makes the operation a TypeError.
  Timestamps occur only in the Date column of a loaded table, which no arithmetic of the
  report generator reads; the model refuses them.
\<close>

definition of_int64 :: "64 word \<Rightarrow> fnum" where
  "of_int64 w = Fin (real_of_int (sint w))"

definition somes :: "'a option list \<Rightarrow> 'a list" where
  "somes xs = concat (map (\<lambda>x. case x of None \<Rightarrow> [] | Some a \<Rightarrow> [a]) xs)"

fun numbers :: "column \<Rightarrow> error + fnum list" where
  "numbers (Float64 xs) = Inr xs"
| "numbers (Int64 ws) = Inr (map of_int64 ws)"
| "numbers (Object xs) = (if somes xs = [] then Inr (map (\<lambda>x. NaN) xs) else Inl TypeError)"
| "numbers (Datetime64 xs) = Inl TypeError"

subsection \<open>Reductions of a column\<close>

text \<open>
  pandas skips NaN in \<^verbatim>\<open>sum\<close>, \<^verbatim>\<open>mean\<close> and \<^verbatim>\<open>std\<close>; \<^verbatim>\<open>mean\<close> and \<^verbatim>\<open>std\<close> of an
  integer column are computed in floats.
\<close>

definition dropna :: "fnum list \<Rightarrow> fnum list" where
  "dropna xs = filter (\<lambda>x. \<not> is_nan x) xs"

definition fsum :: "fnum list \<Rightarrow> fnum" where
  "fsum xs = foldl fadd (Fin 0) xs"

definition nansum :: "fnum list \<Rightarrow> fnum" where
  "nansum xs = fsum (dropna xs)"

definition nanmean :: "fnum list \<Rightarrow> fnum" where
  "nanmean xs = fdiv (nansum xs) (Fin (real (length (dropna xs))))"

text \<open>
  The sample standard deviation (\<^verbatim>\<open>ddof=1\<close>): NaN for fewer than two values. In exact
  arithmetic the deviations of a constant column are zero; the program rounds the mean
  of the floats, so that its deviation of a column that repeats a float can be a tiny
  number and not zero.
\<close>

definition nanstd :: "fnum list \<Rightarrow> fnum" where
  "nanstd xs =
     (let vs = dropna xs; n = length vs
      in if n \<le> 1 then NaN
         else let avg = fdiv (fsum vs) (Fin (real n));
                  sqr = map (\<lambda>x. let d = fsub avg x in fmul d d) vs
              in fsqrt (fdiv (fsum sqr) (Fin (real (n - 1)))))"

text \<open>
  The result of \<^verbatim>\<open>sum\<close> is a number or, for a column of strings, a text. The sum of a
  float column skips NaN. The sum of an integer column is taken in 64-bit integers and
  wraps. The sum of an object column starts from the missing cells replaced by 0: it is
  0 when there is no string, the strings joined when no cell is missing, and a
  TypeError (a string added to 0) otherwise. Timestamps cannot be summed.
\<close>

datatype scalar = Number fnum | Text string

fun col_sum :: "column \<Rightarrow> error + scalar" where
  "col_sum (Float64 xs) = Inr (Number (nansum xs))"
| "col_sum (Int64 ws) = Inr (Number (of_int64 (sum_list ws)))"
| "col_sum (Object xs) =
     (if somes xs = [] then Inr (Number (Fin 0))
      else if None \<in> set xs then Inl TypeError
      else Inr (Text (concat (somes xs))))"
| "col_sum (Datetime64 xs) = Inl TypeError"

definition col_mean :: "column \<Rightarrow> error + fnum" where
  "col_mean c = bindE (numbers c) (\<lambda>xs. Inr (nanmean xs))"

definition col_std :: "column \<Rightarrow> error + fnum" where
  "col_std c = bindE (numbers c) (\<lambda>xs. Inr (nanstd xs))"

text \<open>\<^verbatim>\<open>nunique\<close>: the number of distinct cells, missing cells not counted.\<close>

fun nunique :: "column \<Rightarrow> nat" where
  "nunique (Float64 xs) = length (remdups (dropna xs))"
| "nunique (Int64 ws) = length (remdups ws)"
| "nunique (Object xs) = length (remdups (somes xs))"
| "nunique (Datetime64 xs) = length (remdups (somes xs))"

text \<open>
  Cell by cell arithmetic. The quotient of two columns is a float column, also for two
  integer columns (a division by zero gives an infinity or NaN, not an exception). The
  product with an integer keeps the dtype: it wraps on an integer column and repeats
  the strings of an object column.
\<close>

definition col_div :: "column \<Rightarrow> column \<Rightarrow> error + column" where
  "col_div a b =
     bindE (numbers a) (\<lambda>xs.
     bindE (numbers b) (\<lambda>ys.
       Inr (Float64 (map2 fdiv xs ys))))"

fun col_scale :: "column \<Rightarrow> int \<Rightarrow> error + column" where
  "col_scale (Float64 xs) k = Inr (Float64 (map (\<lambda>x. fmul x (Fin (real_of_int k))) xs))"
| "col_scale (Int64 ws) k = Inr (Int64 (map (\<lambda>w. w * word_of_int k) ws))"
| "col_scale (Object xs) k =
     Inr (Object (map (map_option (\<lambda>s. concat (replicate (nat k) s))) xs))"
| "col_scale (Datetime64 xs) k = Inl TypeError"

text \<open>\<^verbatim>\<open>round(2)\<close> changes the float columns only.\<close>

fun col_round2 :: "column \<Rightarrow> column" where
  "col_round2 (Float64 xs) = Float64 (map round2 xs)"
| "col_round2 c = c"

text \<open>\<^verbatim>\<open>(a / b * 100).round(2)\<close> on two columns.\<close>

definition percent :: "column \<Rightarrow> column \<Rightarrow> error + column" where
  "percent a b =
     bindE (col_div a b) (\<lambda>q.
     bindE (col_scale q 100) (\<lambda>p.
       Inr (col_round2 p)))"

subsection \<open>Grouping\<close>

text \<open>
  \<^verbatim>\<open>groupby\<close> forms one group for each distinct cell of the key column, leaves out the
  rows whose key is missing, and orders the groups by their key. A group is the list of
  the positions of its rows.
\<close>

definition enumerate_rows :: "'a list \<Rightarrow> (nat \<times> 'a) list" where
  "enumerate_rows xs = zip [0..<length xs] xs"

definition group_rows :: "'k list \<Rightarrow> 'k \<Rightarrow> nat list" where
  "group_rows ks k = map fst (filter (\<lambda>p. snd p = k) (enumerate_rows ks))"

fun insert_asc :: "fnum \<Rightarrow> fnum list \<Rightarrow> fnum list" where
  "insert_asc x [] = [x]"
| "insert_asc x (y # ys) = (if fless y x then y # insert_asc x ys else x # y # ys)"

definition sort_asc :: "fnum list \<Rightarrow> fnum list" where
  "sort_asc xs = foldr insert_asc xs []"

fun groupby :: "column \<Rightarrow> column \<times> nat list list" where
  "groupby (Object ks) =
     (let keys = sort (remdups (somes ks))
      in (Object (map Some keys), map (\<lambda>k. group_rows ks (Some k)) keys))"
| "groupby (Datetime64 ks) =
     (let keys = sort (remdups (somes ks))
      in (Datetime64 (map Some keys), map (\<lambda>k. group_rows ks (Some k)) keys))"
| "groupby (Float64 ks) =
     (let keys = sort_asc (remdups (dropna ks))
      in (Float64 keys, map (group_rows ks) keys))"
| "groupby (Int64 ks) =
     (let keys = sort_key sint (remdups ks)
      in (Int64 keys, map (group_rows ks) keys))"

text \<open>
  \<^verbatim>\<open>agg\<close> with a dictionary first checks that every key of the dictionary is a column
  of the frame, and raises a KeyError listing, in sorted order, those that are not.
  The sum of the groups of an integer column is an integer column and wraps; the mean
  is a float column; the count is an integer column. Summing or averaging the groups of
  a column of objects or timestamps is modelled as a TypeError (pandas joins the strings
  of a group in \<^verbatim>\<open>sum\<close> and refuses them in \<^verbatim>\<open>mean\<close>).
\<close>

definition agg_check :: "dataframe \<Rightarrow> string list \<Rightarrow> error + unit" where
  "agg_check df names =
     (let missing = sort (filter (\<lambda>n. n \<notin> set (columns df)) names)
      in if missing = [] then Inr () else Inl (KeyError missing))"

definition pick :: "nat list \<Rightarrow> 'a list \<Rightarrow> 'a list" where
  "pick idx xs = map (\<lambda>i. xs ! i) idx"

fun agg_sum :: "nat list list \<Rightarrow> column \<Rightarrow> error + column" where
  "agg_sum groups (Float64 xs) = Inr (Float64 (map (\<lambda>idx. nansum (pick idx xs)) groups))"
| "agg_sum groups (Int64 ws) = Inr (Int64 (map (\<lambda>idx. sum_list (pick idx ws)) groups))"
| "agg_sum groups c = Inl TypeError"

fun agg_mean :: "nat list list \<Rightarrow> column \<Rightarrow> error + column" where
  "agg_mean groups (Float64 xs) = Inr (Float64 (map (\<lambda>idx. nanmean (pick idx xs)) groups))"
| "agg_mean groups (Int64 ws) =
     Inr (Float64 (map (\<lambda>idx. nanmean (map of_int64 (pick idx ws))) groups))"
| "agg_mean groups c = Inl TypeError"

fun agg_count :: "nat list list \<Rightarrow> column \<Rightarrow> column" where
  "agg_count groups (Float64 xs) =
     Int64 (map (\<lambda>idx. word_of_nat (length (dropna (pick idx xs)))) groups)"
| "agg_count groups (Int64 ws) = Int64 (map (\<lambda>idx. word_of_nat (length idx)) groups)"
| "agg_count groups (Object xs) =
     Int64 (map (\<lambda>idx. word_of_nat (length (somes (pick idx xs)))) groups)"
| "agg_count groups (Datetime64 xs) =
     Int64 (map (\<lambda>idx. word_of_nat (length (somes (pick idx xs)))) groups)"

section \<open>The report generator\<close>

text \<open>The dictionary returned by \<^verbatim>\<open>generate_basic_report\<close>, one field per key.\<close>

record summary =
  total_companies :: nat
  total_revenue :: scalar
  total_expenses :: scalar
  total_net_income :: scalar
  average_revenue :: fnum
  average_expenses :: fnum
  average_net_income :: fnum
  revenue_std :: fnum
  profit_margin_avg :: fnum
  expense_ratio_avg :: fnum
  total_market_cap :: "scalar option"
  average_market_cap :: "fnum option"
  market_cap_std :: "fnum option"

text \<open>The object: the loaded frame (\<open>None\<close> before \<^verbatim>\<open>load_data\<close>) and the last summary.\<close>

record generator =
  data :: "dataframe option"
  report_summary :: "summary option"

definition no_data :: error where
  "no_data = ValueError ''No data loaded. Please load data first.''"

text \<open>
  The entries of the summary in the order in which Python evaluates the dictionary
  display, so that the first failing access decides the exception.
\<close>

definition basic_metrics :: "dataframe \<Rightarrow> error + summary" where
  "basic_metrics df =
     bindE (getitem df ''Company'') (\<lambda>company.
     bindE (getitem df ''Revenue'') (\<lambda>rev.
     bindE (col_sum rev) (\<lambda>t_rev.
     bindE (getitem df ''Expenses'') (\<lambda>exp.
     bindE (col_sum exp) (\<lambda>t_exp.
     bindE (getitem df ''Net_Income'') (\<lambda>ni.
     bindE (col_sum ni) (\<lambda>t_ni.
     bindE (col_mean rev) (\<lambda>a_rev.
     bindE (col_mean exp) (\<lambda>a_exp.
     bindE (col_mean ni) (\<lambda>a_ni.
     bindE (col_std rev) (\<lambda>s_rev.
     bindE (col_div ni rev) (\<lambda>margins.
     bindE (col_mean margins) (\<lambda>m.
     bindE (col_div exp rev) (\<lambda>ratios.
     bindE (col_mean ratios) (\<lambda>r.
       Inr \<lparr> total_companies = nunique company,
             total_revenue = t_rev,
             total_expenses = t_exp,
             total_net_income = t_ni,
             average_revenue = a_rev,
             average_expenses = a_exp,
             average_net_income = a_ni,
             revenue_std = s_rev,
             profit_margin_avg = fmul m (Fin 100),
             expense_ratio_avg = fmul r (Fin 100),
             total_market_cap = None,
             average_market_cap = None,
             market_cap_std = None \<rparr>)))))))))))))))"

definition market_cap_metrics :: "dataframe \<Rightarrow> summary \<Rightarrow> error + summary" where
  "market_cap_metrics df s =
     (if ''Market_Cap'' \<in> set (columns df) then
        bindE (getitem df ''Market_Cap'') (\<lambda>mc.
        bindE (col_sum mc) (\<lambda>t.
        bindE (col_mean mc) (\<lambda>a.
        bindE (col_std mc) (\<lambda>sd.
          Inr (s\<lparr> total_market_cap := Some t,
                   average_market_cap := Some a,
                   market_cap_std := Some sd \<rparr>)))))
      else Inr s)"

definition generate_basic_report :: "generator \<Rightarrow> (error + summary) \<times> generator" where
  "generate_basic_report g =
     (case data g of
        None \<Rightarrow> (Inl no_data, g)
      | Some df \<Rightarrow>
          (case bindE (basic_metrics df) (market_cap_metrics df) of
             Inl e \<Rightarrow> (Inl e, g)
           | Inr s \<Rightarrow> (Inr s, g\<lparr>report_summary := Some s\<rparr>)))"

subsection \<open>Company insights and sector analysis\<close>

text \<open>
  \<^verbatim>\<open>get_company_insights\<close>. The dictionary given to \<^verbatim>\<open>agg\<close> always has the key
  \<^verbatim>\<open>Market_Cap\<close> (with \<^verbatim>\<open>'mean'\<close> or with the constant function), so the check of
  \<^verbatim>\<open>agg\<close> asks for that column too. The aggregated frame is rounded to two decimals
  before the two ratios are computed from its columns.
\<close>

definition company_metrics :: "dataframe \<Rightarrow> error + dataframe" where
  "company_metrics df =
     bindE (getitem df ''Company'') (\<lambda>key.
     bindE (agg_check df [''Revenue'', ''Expenses'', ''Net_Income'', ''Market_Cap'']) (\<lambda>_.
     bindE (getitem df ''Revenue'') (\<lambda>rev.
     bindE (getitem df ''Expenses'') (\<lambda>exp.
     bindE (getitem df ''Net_Income'') (\<lambda>ni.
     bindE (getitem df ''Market_Cap'') (\<lambda>mc.
       let (keys, groups) = groupby key in
     bindE (agg_sum groups rev) (\<lambda>rev_sum.
     bindE (agg_mean groups rev) (\<lambda>rev_mean.
     bindE (agg_sum groups exp) (\<lambda>exp_sum.
     bindE (agg_mean groups exp) (\<lambda>exp_mean.
     bindE (agg_sum groups ni) (\<lambda>ni_sum.
     bindE (agg_mean groups ni) (\<lambda>ni_mean.
     bindE (agg_mean groups mc) (\<lambda>mc_mean.
       let revenue_sum = col_round2 rev_sum;
           expenses_sum = col_round2 exp_sum;
           net_income_sum = col_round2 ni_sum in
     bindE (percent net_income_sum revenue_sum) (\<lambda>profit_margin.
     bindE (percent expenses_sum revenue_sum) (\<lambda>expense_ratio.
       Inr [(''Company'', keys),
            (''Revenue_sum'', revenue_sum),
            (''Revenue_mean'', col_round2 rev_mean),
            (''Expenses_sum'', expenses_sum),
            (''Expenses_mean'', col_round2 exp_mean),
            (''Net_Income_sum'', net_income_sum),
            (''Net_Income_mean'', col_round2 ni_mean),
            (''Market_Cap_mean'', col_round2 mc_mean),
            (''Profit_Margin'', profit_margin),
            (''Expense_Ratio'', expense_ratio)])))))))))))))))"

definition get_company_insights :: "generator \<Rightarrow> (error + dataframe) \<times> generator" where
  "get_company_insights g =
     (case data g of
        None \<Rightarrow> (Inl no_data, g)
      | Some df \<Rightarrow> (company_metrics df, g))"

definition sector_metrics :: "dataframe \<Rightarrow> error + dataframe" where
  "sector_metrics df =
     bindE (getitem df ''Sector'') (\<lambda>key.
     bindE (agg_check df [''Revenue'', ''Net_Income'', ''Market_Cap'']) (\<lambda>_.
     bindE (getitem df ''Revenue'') (\<lambda>rev.
     bindE (getitem df ''Net_Income'') (\<lambda>ni.
     bindE (getitem df ''Market_Cap'') (\<lambda>mc.
       let (keys, groups) = groupby key in
     bindE (agg_sum groups rev) (\<lambda>rev_sum.
     bindE (agg_mean groups rev) (\<lambda>rev_mean.
     bindE (agg_sum groups ni) (\<lambda>ni_sum.
     bindE (agg_mean groups ni) (\<lambda>ni_mean.
     bindE (agg_sum groups mc) (\<lambda>mc_sum.
       let revenue_sum = col_round2 rev_sum;
           net_income_sum = col_round2 ni_sum in
     bindE (percent net_income_sum revenue_sum) (\<lambda>avg_profit_margin.
       Inr [(''Sector'', keys),
            (''Revenue_sum'', revenue_sum),
            (''Revenue_mean'', col_round2 rev_mean),
            (''Revenue_count'', agg_count groups rev),
            (''Net_Income_sum'', net_income_sum),
            (''Net_Income_mean'', col_round2 ni_mean),
            (''Market_Cap_sum'', col_round2 mc_sum),
            (''Avg_Profit_Margin'', avg_profit_margin)])))))))))))"

text \<open>Without data or without a Sector column the result is the empty frame.\<close>

definition get_sector_analysis :: "generator \<Rightarrow> (error + dataframe) \<times> generator" where
  "get_sector_analysis g =
     (case data g of
        None \<Rightarrow> (Inr [], g)
      | Some df \<Rightarrow>
          if ''Sector'' \<notin> set (columns df) then (Inr [], g)
          else (sector_metrics df, g))"

subsection \<open>Top performers\<close>

text \<open>
  \<^verbatim>\<open>nlargest\<close> accepts a column of numbers or of timestamps and refuses a column of
  objects with a TypeError. It orders the rows by falling value, rows of equal value in
  their order in the frame, rows without a value last, and keeps the first \<open>n\<close>.
\<close>

fun insert_desc :: "('a \<Rightarrow> 'a \<Rightarrow> bool) \<Rightarrow> nat \<times> 'a \<Rightarrow> (nat \<times> 'a) list \<Rightarrow> (nat \<times> 'a) list" where
  "insert_desc lt p [] = [p]"
| "insert_desc lt p (q # qs) =
     (if lt (snd p) (snd q) then q # insert_desc lt p qs else p # q # qs)"

definition sort_desc :: "('a \<Rightarrow> 'a \<Rightarrow> bool) \<Rightarrow> (nat \<times> 'a) list \<Rightarrow> (nat \<times> 'a) list" where
  "sort_desc lt ps = foldr (insert_desc lt) ps []"

fun nlargest_rows :: "int \<Rightarrow> column \<Rightarrow> error + nat list" where
  "nlargest_rows n (Object xs) = Inl TypeError"
| "nlargest_rows n (Float64 xs) =
     (let rows = enumerate_rows xs;
          present = filter (\<lambda>p. \<not> is_nan (snd p)) rows;
          absent = filter (\<lambda>p. is_nan (snd p)) rows
      in Inr (take (nat n) (map fst (sort_desc fless present @ absent))))"
| "nlargest_rows n (Int64 ws) =
     Inr (take (nat n) (map fst (sort_desc (\<lambda>a b. sint a < sint b) (enumerate_rows ws))))"
| "nlargest_rows n (Datetime64 xs) =
     (let rows = enumerate_rows xs;
          present = filter (\<lambda>p. snd p \<noteq> None) rows;
          absent = filter (\<lambda>p. snd p = None) rows
      in Inr (take (nat n) (map fst (sort_desc (\<lambda>a b. the a < the b) present @ absent))))"

fun take_rows :: "nat list \<Rightarrow> column \<Rightarrow> column" where
  "take_rows idx (Float64 xs) = Float64 (pick idx xs)"
| "take_rows idx (Int64 xs) = Int64 (pick idx xs)"
| "take_rows idx (Object xs) = Object (pick idx xs)"
| "take_rows idx (Datetime64 xs) = Datetime64 (pick idx xs)"

definition nlargest :: "int \<Rightarrow> string \<Rightarrow> dataframe \<Rightarrow> error + dataframe" where
  "nlargest n metric df =
     bindE (getitem df metric) (\<lambda>c.
     bindE (nlargest_rows n c) (\<lambda>idx.
       Inr (map (\<lambda>(name, col). (name, take_rows idx col)) df)))"

text \<open>\<^verbatim>\<open>df[[names]]\<close>: the named columns in that order, or a KeyError with the missing names.\<close>

definition select_columns :: "dataframe \<Rightarrow> string list \<Rightarrow> error + dataframe" where
  "select_columns df names =
     (let missing = filter (\<lambda>n. n \<notin> set (columns df)) names
      in if missing \<noteq> [] then Inl (KeyError missing)
         else Inr (map (\<lambda>n. (n, the (map_of df n))) names))"

definition metric_not_found :: "string \<Rightarrow> error" where
  "metric_not_found metric =
     ValueError (''Metric '' @ [CHR 0x27] @ metric @ [CHR 0x27] @ '' not found in data columns.'')"

definition profit_margin_column :: "dataframe \<Rightarrow> error + column" where
  "profit_margin_column df =
     bindE (getitem df ''Net_Income'') (\<lambda>ni.
     bindE (getitem df ''Revenue'') (\<lambda>rev.
       percent ni rev))"

definition identify_top_performers ::
    "generator \<Rightarrow> string \<Rightarrow> int \<Rightarrow> (error + dataframe) \<times> generator" where
  "identify_top_performers g metric top_n =
     (case data g of
        None \<Rightarrow> (Inl no_data, g)
      | Some df \<Rightarrow>
          if metric \<notin> set (columns df) then (Inl (metric_not_found metric), g)
          else
            (bindE (nlargest top_n metric df) (\<lambda>largest.
             bindE (select_columns largest
                     [''Company'', ''Revenue'', ''Expenses'', ''Net_Income'', ''Sector''])
               (\<lambda>top_performers.
             bindE (profit_margin_column top_performers) (\<lambda>pm.
               Inr (setitem top_performers ''Profit_Margin'' pm)))), g))"

subsection \<open>Risk assessment\<close>

text \<open>A cell as Python sees it in a list made of a column.\<close>

datatype cell = Num fnum | Whole int | Str string | Stamp int | NaT

fun tolist :: "column \<Rightarrow> cell list" where
  "tolist (Float64 xs) = map Num xs"
| "tolist (Int64 ws) = map (\<lambda>w. Whole (sint w)) ws"
| "tolist (Object xs) = map (\<lambda>x. case x of None \<Rightarrow> Num NaN | Some s \<Rightarrow> Str s) xs"
| "tolist (Datetime64 xs) = map (\<lambda>x. case x of None \<Rightarrow> NaT | Some t \<Rightarrow> Stamp t) xs"

record risk =
  high_debt_companies :: nat
  low_profit_margin_companies :: nat
  average_volatility :: fnum
  companies_at_risk :: "cell list"

text \<open>
  A column minus a float, the absolute values, a column over a float, and the
  comparisons with a float, all on the column as numbers.
\<close>

definition col_sub :: "column \<Rightarrow> fnum \<Rightarrow> error + column" where
  "col_sub c k = bindE (numbers c) (\<lambda>xs. Inr (Float64 (map (\<lambda>x. fsub x k) xs)))"

definition col_abs :: "column \<Rightarrow> error + column" where
  "col_abs c = bindE (numbers c) (\<lambda>xs. Inr (Float64 (map fabs xs)))"

definition col_over :: "column \<Rightarrow> fnum \<Rightarrow> error + column" where
  "col_over c k = bindE (numbers c) (\<lambda>xs. Inr (Float64 (map (\<lambda>x. fdiv x k) xs)))"

definition col_gt :: "column \<Rightarrow> fnum \<Rightarrow> error + bool list" where
  "col_gt c k = bindE (numbers c) (\<lambda>xs. Inr (map (\<lambda>x. fless k x) xs))"

definition col_lt :: "column \<Rightarrow> fnum \<Rightarrow> error + bool list" where
  "col_lt c k = bindE (numbers c) (\<lambda>xs. Inr (map (\<lambda>x. fless x k) xs))"

definition count_true :: "bool list \<Rightarrow> nat" where
  "count_true m = length (filter id m)"

definition masked :: "bool list \<Rightarrow> 'a list \<Rightarrow> 'a list" where
  "masked m xs = map snd (filter fst (zip m xs))"

definition debt_to_revenue :: "dataframe \<Rightarrow> error + column" where
  "debt_to_revenue df =
     bindE (getitem df ''Expenses'') (\<lambda>exp.
     bindE (getitem df ''Revenue'') (\<lambda>rev.
       col_div exp rev))"

definition volatility_score :: "dataframe \<Rightarrow> error + column" where
  "volatility_score df =
     bindE (getitem df ''Net_Income'') (\<lambda>ni.
     bindE (col_mean ni) (\<lambda>m.
     bindE (col_sub ni m) (\<lambda>d.
     bindE (col_abs d) (\<lambda>a.
     bindE (col_std ni) (\<lambda>sd.
       col_over a sd)))))"

definition risk_metrics :: "dataframe \<Rightarrow> error + risk" where
  "risk_metrics df =
     bindE (getitem df ''Debt_to_Revenue'') (\<lambda>debt.
     bindE (col_gt debt (Fin (8 / 10))) (\<lambda>high_debt.
     bindE (getitem df ''Net_Income'') (\<lambda>ni.
     bindE (getitem df ''Revenue'') (\<lambda>rev.
     bindE (col_div ni rev) (\<lambda>margin.
     bindE (col_lt margin (Fin (5 / 100))) (\<lambda>low_margin.
     bindE (getitem df ''Volatility_Score'') (\<lambda>vol.
     bindE (col_mean vol) (\<lambda>avg.
     bindE (getitem df ''Company'') (\<lambda>company.
       Inr \<lparr> high_debt_companies = count_true high_debt,
             low_profit_margin_companies = count_true low_margin,
             average_volatility = avg,
             companies_at_risk =
               masked (map2 (\<or>) high_debt low_margin) (tolist company) \<rparr>)))))))))"

text \<open>
  \<^verbatim>\<open>generate_risk_assessment\<close> stores its two columns in the loaded frame as it goes; an
  exception raised later leaves the columns stored so far.
\<close>

definition generate_risk_assessment :: "generator \<Rightarrow> (error + risk) \<times> generator" where
  "generate_risk_assessment g =
     (case data g of
        None \<Rightarrow> (Inl no_data, g)
      | Some df \<Rightarrow>
          (case debt_to_revenue df of
             Inl e \<Rightarrow> (Inl e, g)
           | Inr debt \<Rightarrow>
               let df1 = setitem df ''Debt_to_Revenue'' debt
               in (case volatility_score df1 of
                     Inl e \<Rightarrow> (Inl e, g\<lparr>data := Some df1\<rparr>)
                   | Inr vol \<Rightarrow>
                       let df2 = setitem df1 ''Volatility_Score'' vol
                       in (risk_metrics df2, g\<lparr>data := Some df2\<rparr>))))"

section \<open>The narrator\<close>

subsection \<open>Formatting\<close>

text \<open>
  The format specifications of \<^verbatim>\<open>gpt_summary.py\<close>: \<^verbatim>\<open>{x:,.0f}\<close> and \<^verbatim>\<open>{x:.1f}\<close>
  print a number with a fixed number of decimals, rounded half to even, the first with
  commas between groups of three digits; \<^verbatim>\<open>{n}\<close> prints an integer in decimal.
\<close>

definition digit_char :: "nat \<Rightarrow> char" where
  "digit_char n = ''0123456789'' ! n"

function show_nat :: "nat \<Rightarrow> string" where
  "show_nat n = (if n < 10 then [digit_char n] else show_nat (n div 10) @ [digit_char (n mod 10)])"
  by pat_completeness auto
termination
  by (relation "measure id") auto

declare show_nat.simps [simp del]

definition show_int :: "int \<Rightarrow> string" where
  "show_int i = (if i < 0 then ''-'' @ show_nat (nat (- i)) else show_nat (nat i))"

fun group3 :: "string \<Rightarrow> string" where
  "group3 (a # b # c # d # ds) = a # b # c # CHR '','' # group3 (d # ds)"
| "group3 ds = ds"

definition commas :: "string \<Rightarrow> string" where
  "commas ds = rev (group3 (rev ds))"

fun format_f :: "bool \<Rightarrow> nat \<Rightarrow> fnum \<Rightarrow> string" where
  "format_f grouped d (Fin a) =
     (let m = nat (rint (\<bar>a\<bar> * 10 ^ d));
          whole = show_nat (m div 10 ^ d);
          part = show_nat (m mod 10 ^ d);
          fraction = (if d = 0 then [] else ''.'' @ replicate (d - length part) CHR ''0'' @ part)
      in (if a < 0 then ''-'' else []) @ (if grouped then commas whole else whole) @ fraction)"
| "format_f grouped d PosInf = ''inf''"
| "format_f grouped d NegInf = ''-inf''"
| "format_f grouped d NaN = ''nan''"

definition newline :: string where
  "newline = [CHR 0x0A]"

fun join :: "string \<Rightarrow> string list \<Rightarrow> string" where
  "join sep [] = []"
| "join sep [x] = x"
| "join sep (x # y # ys) = x @ sep @ join sep (y # ys)"

text \<open>
  A prompt is a triple-quoted f-string inside a method: it opens with a line break, every
  line is indented by eight blanks, and the last line is the indentation alone.
\<close>

definition template :: "string list \<Rightarrow> string" where
  "template lines =
     join newline ([] # map (\<lambda>l. replicate 8 CHR '' '' @ l) lines @ [replicate 8 CHR '' ''])"

definition is_space :: "char \<Rightarrow> bool" where
  "is_space c = (c \<in> set [CHR 0x09, CHR 0x0A, CHR 0x0B, CHR 0x0C, CHR 0x0D,
                          CHR 0x1C, CHR 0x1D, CHR 0x1E, CHR 0x1F, CHR 0x20])"

definition strip :: "string \<Rightarrow> string" where
  "strip s = rev (dropWhile is_space (rev (dropWhile is_space s)))"

subsection \<open>The dictionaries and the remote model\<close>

text \<open>
  A dictionary of the lists given to the narrator, by the keys the narrator reads: a
  key is absent (\<open>None\<close>) or has a value of the type the aggregator gives it.
\<close>

record entry =
  Company :: "string option"
  Sector :: "string option"
  Revenue_sum :: "fnum option"
  Net_Income_sum :: "fnum option"
  Profit_Margin :: "fnum option"
  Revenue_count :: "int option"
  Avg_Profit_Margin :: "fnum option"
  Revenue :: "fnum option"
  Net_Income :: "fnum option"

definition get :: "'a option \<Rightarrow> 'a \<Rightarrow> 'a" where
  "get v d = (case v of None \<Rightarrow> d | Some x \<Rightarrow> x)"

text \<open>
  The call of the chat completion: the request, and the answer of the service or the
  text of the exception.
\<close>

record request =
  model :: string
  content :: string
  max_tokens :: nat
  temperature :: rat

type_synonym remote = "request \<Rightarrow> string + string"

definition ask :: "remote \<Rightarrow> string \<Rightarrow> nat \<Rightarrow> rat \<Rightarrow> string \<Rightarrow> string" where
  "ask llm prompt tokens temp unavailable =
     (case llm \<lparr>model = ''gpt-4'', content = prompt, max_tokens = tokens, temperature = temp\<rparr> of
        Inr answer \<Rightarrow> strip answer
      | Inl e \<Rightarrow> unavailable @ '': '' @ e)"

subsection \<open>Company analysis\<close>

definition company_line :: "entry \<Rightarrow> string" where
  "company_line company =
     ''- '' @ get (Company company) ''Unknown''
     @ '': Revenue $'' @ format_f True 0 (get (Revenue_sum company) (Fin 0)) @ '', ''
     @ ''Net Income $'' @ format_f True 0 (get (Net_Income_sum company) (Fin 0)) @ '', ''
     @ ''Profit Margin '' @ format_f False 1 (get (Profit_Margin company) (Fin 0)) @ ''%''"

definition company_info :: "entry list \<Rightarrow> string" where
  "company_info company_data = join newline (map company_line (take 10 company_data))"

definition company_prompt :: "entry list \<Rightarrow> string" where
  "company_prompt company_data = template
     [''Analyze the performance of these companies based on their financial metrics:'',
      '''',
      company_info company_data,
      '''',
      ''Provide insights on:'',
      ''1. Which companies show the strongest financial health'',
      ''2. Companies that may need attention or restructuring'',
      ''3. Industry patterns or trends you observe'',
      ''4. Recommendations for portfolio management'',
      '''',
      ''Be specific and data-driven in your analysis (max 250 words).'']"

definition analyze_company_performance :: "remote \<Rightarrow> entry list \<Rightarrow> string" where
  "analyze_company_performance llm company_data =
     ask llm (company_prompt company_data) 350 (6 / 10) ''Company analysis unavailable''"

subsection \<open>Sector insights\<close>

definition sector_line :: "entry \<Rightarrow> string" where
  "sector_line sector =
     ''- '' @ get (Sector sector) ''Unknown'' @ '': ''
     @ ''Total Revenue $'' @ format_f True 0 (get (Revenue_sum sector) (Fin 0)) @ '', ''
     @ ''Companies: '' @ show_int (get (Revenue_count sector) 0) @ '', ''
     @ ''Avg Profit Margin: '' @ format_f False 1 (get (Avg_Profit_Margin sector) (Fin 0)) @ ''%''"

definition sector_info :: "entry list \<Rightarrow> string" where
  "sector_info sector_data = join newline (map sector_line sector_data)"

definition sector_prompt :: "entry list \<Rightarrow> string" where
  "sector_prompt sector_data = template
     [''Analyze sector performance based on the following data:'',
      '''',
      sector_info sector_data,
      '''',
      ''Provide insights on:'',
      ''1. Best performing sectors and why'',
      ''2. Sectors facing challenges'',
      ''3. Market opportunities and threats'',
      ''4. Investment recommendations by sector'',
      '''',
      ''Focus on actionable insights for investors and business leaders (max 200 words).'']"

definition generate_sector_insights :: "remote \<Rightarrow> entry list \<Rightarrow> string" where
  "generate_sector_insights llm sector_data =
     (if sector_data = [] then ''Sector analysis not available - insufficient sector data.''
      else ask llm (sector_prompt sector_data) 300 (6 / 10) ''Sector analysis unavailable'')"

subsection \<open>Investment recommendations\<close>

definition performer_line :: "entry \<Rightarrow> string" where
  "performer_line perf =
     ''- '' @ get (Company perf) ''Unknown'' @ '': ''
     @ ''Revenue $'' @ format_f True 0 (get (Revenue perf) (Fin 0)) @ '', ''
     @ ''Net Income $'' @ format_f True 0 (get (Net_Income perf) (Fin 0)) @ '', ''
     @ ''Profit Margin '' @ format_f False 1 (get (Profit_Margin perf) (Fin 0)) @ ''%, ''
     @ ''Sector: '' @ get (Sector perf) ''Unknown''"

definition performer_info :: "entry list \<Rightarrow> string" where
  "performer_info top_performers = join newline (map performer_line (take 5 top_performers))"

definition investment_prompt :: "entry list \<Rightarrow> string" where
  "investment_prompt top_performers = template
     [''Based on the top performing companies, provide investment recommendations:'',
      '''',
      ''Top Performers:'',
      performer_info top_performers,
      '''',
      ''Provide:'',
      ''1. Investment attractiveness ranking'',
      ''2. Growth potential assessment'',
      ''3. Risk-adjusted return expectations'',
      ''4. Portfolio allocation suggestions'',
      ''5. Timeline recommendations (short/medium/long term)'',
      '''',
      ''Focus on practical investment advice (max 250 words).'']"

definition generate_investment_recommendations :: "remote \<Rightarrow> entry list \<Rightarrow> string" where
  "generate_investment_recommendations llm top_performers =
     (if top_performers = [] then ''Investment recommendations not available - insufficient data.''
      else ask llm (investment_prompt top_performers) 350 (6 / 10)
             ''Investment recommendations unavailable'')"

text \<open>A remote model that is out of order: the call fails, with the prompt as the message.\<close>

definition failing_remote :: remote where
  "failing_remote r = Inl (content r)"

text \<open>Eleven sectors, numbered, for the examples.\<close>

definition numbered_sector :: "nat \<Rightarrow> entry" where
  "numbered_sector n =
     \<lparr> Company = None, Sector = Some (''Sector '' @ show_nat n),
       Revenue_sum = Some (Fin (real n * 1500000)), Net_Income_sum = Some (Fin (real n * 1000)),
       Profit_Margin = None, Revenue_count = Some (int n),
       Avg_Profit_Margin = Some (Fin (real n + 1 / 4)), Revenue = None, Net_Income = None \<rparr>"

definition eleven_sectors :: "entry list" where
  "eleven_sectors =
     [numbered_sector 1, numbered_sector 2, numbered_sector 3, numbered_sector 4,
      numbered_sector 5, numbered_sector 6, numbered_sector 7, numbered_sector 8,
      numbered_sector 9, numbered_sector 10, numbered_sector 11]"

section \<open>The tables of the data model\<close>

text \<open>
  The predicates in which the properties below speak of a loaded table: which columns it
  has, and that a column holds numbers (floats or integers), as the data model asks of
  revenue, expenses, net income and market capitalisation. \<open>numeric df name xs\<close> says
  that the column is numeric and that \<open>xs\<close> are its cells as numbers.
\<close>

definition has_column :: "dataframe \<Rightarrow> string \<Rightarrow> bool" where
  "has_column df name = (name \<in> set (columns df))"

fun numeric_values :: "column \<Rightarrow> fnum list option" where
  "numeric_values (Float64 xs) = Some xs"
| "numeric_values (Int64 ws) = Some (map of_int64 ws)"
| "numeric_values c = None"

definition numeric :: "dataframe \<Rightarrow> string \<Rightarrow> fnum list \<Rightarrow> bool" where
  "numeric df name xs =
     (case map_of df name of None \<Rightarrow> False | Some c \<Rightarrow> numeric_values c = Some xs)"

definition numeric_column :: "dataframe \<Rightarrow> string \<Rightarrow> bool" where
  "numeric_column df name =
     (case map_of df name of None \<Rightarrow> False | Some c \<Rightarrow> numeric_values c \<noteq> None)"

definition optional_numeric :: "dataframe \<Rightarrow> string \<Rightarrow> bool" where
  "optional_numeric df name = (has_column df name \<longrightarrow> numeric_column df name)"



definition required_columns :: "string list" where
  "required_columns = [''Company'', ''Revenue'', ''Expenses'', ''Net_Income'']"






text \<open>
  The two columns that \<^verbatim>\<open>generate_risk_assessment\<close> stores in a table of numbers, and
  the table with them.
\<close>

definition volatility :: "fnum list \<Rightarrow> fnum list" where
  "volatility incs = map (\<lambda>x. fdiv (fabs (fsub x (nanmean incs))) (nanstd incs)) incs"

definition with_risk_columns :: "dataframe \<Rightarrow> fnum list \<Rightarrow> fnum list \<Rightarrow> fnum list \<Rightarrow> dataframe" where
  "with_risk_columns df revs exps incs =
     setitem (setitem df ''Debt_to_Revenue'' (Float64 (map2 fdiv exps revs)))
       ''Volatility_Score'' (Float64 (volatility incs))"



text \<open>
  Tables for the examples: the two rows A and B of the worked example, as floats and
  as the integers of a CSV file, the same with a Date and a Sector column, a table of
  one row, a table of constant net income, the worked example without its expenses, a
  table with figures in billions, a table with two rows of one company, and a table
  whose revenue does not fit 64 bits when summed.
\<close>

definition example_rows :: dataframe where
  "example_rows =
     [(''Company'', Object [Some ''A'', Some ''B'']),
      (''Revenue'', Float64 [Fin 100, Fin 200]),
      (''Expenses'', Float64 [Fin 90, Fin 100]),
      (''Net_Income'', Float64 [Fin 10, Fin 100])]"


definition with_dates :: dataframe where
  "with_dates =
     [(''Company'', Object [Some ''A'', Some ''B'']),
      (''Date'', Datetime64 [Some 1711843200, Some 1719705600]),
      (''Revenue'', Float64 [Fin 100, Fin 200]),
      (''Expenses'', Float64 [Fin 90, Fin 100]),
      (''Net_Income'', Float64 [Fin 10, Fin 100]),
      (''Sector'', Object [Some ''Retail'', Some ''Energy''])]"

definition one_row :: dataframe where
  "one_row =
     [(''Company'', Object [Some ''A'']),
      (''Revenue'', Float64 [Fin 100]),
      (''Expenses'', Float64 [Fin 90]),
      (''Net_Income'', Float64 [Fin 10])]"




definition no_expenses :: dataframe where
  "no_expenses =
     [(''Company'', Object [Some ''A'', Some ''B'']),
      (''Revenue'', Float64 [Fin 100, Fin 200]),
      (''Net_Income'', Float64 [Fin 10, Fin 100])]"


section \<open>Properties\<close>

subsection \<open>Arithmetic on columns of finite numbers\<close>

lemma dropna_Fin: "dropna (map Fin xs) = map Fin xs"
  by (induction xs) (auto simp: dropna_def)

lemma foldl_fadd_Fin: "foldl fadd (Fin a) (map Fin xs) = Fin (a + sum_list xs)"
  by (induction xs arbitrary: a) (auto simp: algebra_simps)

lemma fsum_Fin: "fsum (map Fin xs) = Fin (sum_list xs)"
  by (simp add: fsum_def foldl_fadd_Fin)

lemma nansum_Fin: "nansum (map Fin xs) = Fin (sum_list xs)"
  by (simp add: nansum_def dropna_Fin fsum_Fin)

lemma nanmean_Fin:
  "nanmean (map Fin xs) = (if xs = [] then NaN else Fin (sum_list xs / real (length xs)))"
  by (simp add: nanmean_def dropna_Fin nansum_Fin)

lemma map2_fdiv_Fin:
  "\<forall>y\<in>set ys. y \<noteq> 0 \<Longrightarrow> map2 fdiv (map Fin xs) (map Fin ys) = map Fin (map2 (/) xs ys)"
proof (induction xs arbitrary: ys)
  case Nil
  then show ?case by simp
next
  case (Cons x xs)
  then show ?case by (cases ys) auto
qed



subsection \<open>Columns of a table\<close>

lemma has_column_map_of: "has_column df name \<longleftrightarrow> map_of df name \<noteq> None"
  by (simp add: has_column_def columns_def map_of_eq_None_iff)

lemma getitem_Some: "map_of df name = Some c \<Longrightarrow> getitem df name = Inr c"
  by (simp add: getitem_def)

lemma getitem_None: "\<not> has_column df name \<Longrightarrow> getitem df name = Inl (KeyError [name])"
  by (simp add: getitem_def has_column_map_of)

lemma has_columnE:
  assumes "has_column df name"
  obtains c where "map_of df name = Some c"
  using assms by (auto simp: has_column_map_of)

lemma numericE:
  assumes "numeric df name xs"
  obtains c where "map_of df name = Some c" and "numeric_values c = Some xs"
  using assms by (auto simp: numeric_def split: option.splits)

lemma numeric_columnE:
  assumes "numeric_column df name"
  obtains xs where "numeric df name xs"
  using assms by (auto simp: numeric_column_def numeric_def split: option.splits)

lemma numeric_has_column: "numeric df name xs \<Longrightarrow> has_column df name"
  by (auto simp: numeric_def has_column_map_of split: option.splits)

lemma optional_numericE:
  assumes "optional_numeric df name" and "has_column df name"
  obtains xs where "numeric df name xs"
  using assms numeric_columnE unfolding optional_numeric_def by blast

lemma numbers_numeric: "numeric_values c = Some xs \<Longrightarrow> numbers c = Inr xs"
  by (cases c) auto

lemma col_sum_numeric: "numeric_values c = Some xs \<Longrightarrow> \<exists>t. col_sum c = Inr t"
  by (cases c) auto

lemma col_mean_numeric: "numeric_values c = Some xs \<Longrightarrow> col_mean c = Inr (nanmean xs)"
  by (simp add: col_mean_def numbers_numeric bindE_def)

lemma col_std_numeric: "numeric_values c = Some xs \<Longrightarrow> col_std c = Inr (nanstd xs)"
  by (simp add: col_std_def numbers_numeric bindE_def)

lemma col_div_numeric:
  "numeric_values a = Some xs \<Longrightarrow> numeric_values b = Some ys \<Longrightarrow>
   col_div a b = Inr (Float64 (map2 fdiv xs ys))"
  by (simp add: col_div_def numbers_numeric bindE_def)

lemma col_mean_Float64: "col_mean (Float64 xs) = Inr (nanmean xs)"
  by (simp add: col_mean_def bindE_def)

subsection \<open>The portfolio summary\<close>

lemma market_cap_metrics_ok:
  assumes "optional_numeric df ''Market_Cap''"
  shows "\<exists>s'. market_cap_metrics df s = Inr s'
      \<and> total_revenue s' = total_revenue s
      \<and> profit_margin_avg s' = profit_margin_avg s
      \<and> expense_ratio_avg s' = expense_ratio_avg s"
proof (cases "has_column df ''Market_Cap''")
  case True
  with assms obtain xs where "numeric df ''Market_Cap'' xs" by (rule optional_numericE)
  then obtain c where c: "map_of df ''Market_Cap'' = Some c" "numeric_values c = Some xs"
    by (rule numericE)
  from col_sum_numeric [OF c(2)] obtain t where "col_sum c = Inr t" by blast
  with True c show ?thesis
    by (simp add: market_cap_metrics_def has_column_def getitem_Some bindE_def
        col_mean_numeric col_std_numeric)
next
  case False
  then show ?thesis by (simp add: market_cap_metrics_def has_column_def)
qed

lemma basic_metrics_numeric:
  assumes "map_of df ''Company'' = Some names"
    and "map_of df ''Revenue'' = Some rc" and "numeric_values rc = Some revs"
    and "map_of df ''Expenses'' = Some ec" and "numeric_values ec = Some exps"
    and "map_of df ''Net_Income'' = Some ic" and "numeric_values ic = Some incs"
  shows "\<exists>s. basic_metrics df = Inr s
      \<and> col_sum rc = Inr (total_revenue s)
      \<and> profit_margin_avg s = fmul (nanmean (map2 fdiv incs revs)) (Fin 100)
      \<and> expense_ratio_avg s = fmul (nanmean (map2 fdiv exps revs)) (Fin 100)"
proof -
  from col_sum_numeric [OF assms(3)] obtain tr where tr: "col_sum rc = Inr tr" by blast
  from col_sum_numeric [OF assms(5)] obtain te where te: "col_sum ec = Inr te" by blast
  from col_sum_numeric [OF assms(7)] obtain ti where ti: "col_sum ic = Inr ti" by blast
  show ?thesis
    using assms tr te ti
    by (simp add: basic_metrics_def getitem_Some bindE_def col_mean_numeric col_std_numeric
        col_div_numeric col_mean_Float64)
qed

lemma generate_basic_report_numeric:
  assumes "data g = Some df"
    and "map_of df ''Company'' = Some names"
    and "map_of df ''Revenue'' = Some rc" and "numeric_values rc = Some revs"
    and "numeric df ''Expenses'' exps"
    and "numeric df ''Net_Income'' incs"
    and "optional_numeric df ''Market_Cap''"
  shows "\<exists>s. generate_basic_report g = (Inr s, g\<lparr>report_summary := Some s\<rparr>)
      \<and> col_sum rc = Inr (total_revenue s)
      \<and> profit_margin_avg s = fmul (nanmean (map2 fdiv incs revs)) (Fin 100)
      \<and> expense_ratio_avg s = fmul (nanmean (map2 fdiv exps revs)) (Fin 100)"
proof -
  from assms(5) obtain ec where ec: "map_of df ''Expenses'' = Some ec" "numeric_values ec = Some exps"
    by (rule numericE)
  from assms(6) obtain ic where ic: "map_of df ''Net_Income'' = Some ic" "numeric_values ic = Some incs"
    by (rule numericE)
  from basic_metrics_numeric [OF assms(2,3,4) ec ic] obtain s0 where
    s0: "basic_metrics df = Inr s0" "col_sum rc = Inr (total_revenue s0)"
      "profit_margin_avg s0 = fmul (nanmean (map2 fdiv incs revs)) (Fin 100)"
      "expense_ratio_avg s0 = fmul (nanmean (map2 fdiv exps revs)) (Fin 100)"
    by blast
  from market_cap_metrics_ok [OF assms(7), of s0] obtain s where
    s: "market_cap_metrics df s0 = Inr s" "total_revenue s = total_revenue s0"
      "profit_margin_avg s = profit_margin_avg s0" "expense_ratio_avg s = expense_ratio_avg s0"
    by blast
  have "generate_basic_report g = (Inr s, g\<lparr>report_summary := Some s\<rparr>)"
    using assms(1) s0(1) s(1) by (simp add: generate_basic_report_def bindE_def)
  with s0 s show ?thesis by simp
qed

text \<open>
  Claim C1. On a loaded table with the columns Company, Revenue, Expenses and
  Net\_Income, whose cells are numbers and whose revenue is nonzero in every row,
  \<^verbatim>\<open>generate_basic_report\<close> returns a summary whose \<^verbatim>\<open>profit_margin_avg\<close> is the
  arithmetic mean over the rows of net income / revenue, times 100, and whose
  \<^verbatim>\<open>expense_ratio_avg\<close> is the mean over the rows of expenses / revenue, times 100:
  the mean of the ratios of the rows, not the ratio of the sums. On the rows A and B of
  the example the profit margin is 30, where the ratio of the sums is 110 / 300.
\<close>

theorem profit_margin_is_mean_of_row_ratios:
  assumes "data g = Some df"
    and "map_of df ''Company'' = Some names"
    and "numeric df ''Revenue'' (map Fin revs)"
    and "numeric df ''Expenses'' (map Fin exps)"
    and "numeric df ''Net_Income'' (map Fin incs)"
    and "length exps = length revs" and "length incs = length revs"
    and "optional_numeric df ''Market_Cap''"
    and "\<forall>r\<in>set revs. r \<noteq> 0"
    and "revs \<noteq> []"
  shows "\<exists>s. fst (generate_basic_report g) = Inr s
      \<and> profit_margin_avg s = Fin (sum_list (map2 (/) incs revs) / real (length revs) * 100)
      \<and> expense_ratio_avg s = Fin (sum_list (map2 (/) exps revs) / real (length revs) * 100)"
proof -
  from assms(3) obtain rc where rc: "map_of df ''Revenue'' = Some rc"
    "numeric_values rc = Some (map Fin revs)"
    by (rule numericE)
  from generate_basic_report_numeric [OF assms(1,2) rc assms(4,5,8)] obtain s where
    s: "generate_basic_report g = (Inr s, g\<lparr>report_summary := Some s\<rparr>)"
      "profit_margin_avg s = fmul (nanmean (map2 fdiv (map Fin incs) (map Fin revs))) (Fin 100)"
      "expense_ratio_avg s = fmul (nanmean (map2 fdiv (map Fin exps) (map Fin revs))) (Fin 100)"
    by blast
  have mean_ratio: "fmul (nanmean (map2 fdiv (map Fin xs) (map Fin revs))) (Fin 100)
      = Fin (sum_list (map2 (/) xs revs) / real (length revs) * 100)"
    if "length xs = length revs" for xs
  proof -
    have ne: "map2 (/) xs revs \<noteq> []"
      using that assms(10) by (cases xs; cases revs; simp)
    have len: "length (map2 (/) xs revs) = length revs"
      using that by simp
    have "nanmean (map2 fdiv (map Fin xs) (map Fin revs)) = nanmean (map Fin (map2 (/) xs revs))"
      by (simp only: map2_fdiv_Fin [OF assms(9)])
    also have "\<dots> = Fin (sum_list (map2 (/) xs revs) / real (length (map2 (/) xs revs)))"
      using ne by (simp only: nanmean_Fin if_False)
    finally show ?thesis
      by (simp only: len fmul.simps)
  qed
  have "profit_margin_avg s = Fin (sum_list (map2 (/) incs revs) / real (length revs) * 100)"
    using s(2) mean_ratio [OF assms(7)] by simp
  moreover have "expense_ratio_avg s = Fin (sum_list (map2 (/) exps revs) / real (length revs) * 100)"
    using s(3) mean_ratio [OF assms(6)] by simp
  ultimately show ?thesis using s(1) by simp
qed

theorem profit_margin_is_mean_of_row_ratios_witness:
  "\<not> isl (fst (generate_basic_report \<lparr>data = Some example_rows, report_summary = None\<rparr>))
   \<and> profit_margin_avg (projr (fst (generate_basic_report
        \<lparr>data = Some example_rows, report_summary = None\<rparr>))) = Fin 30
   \<and> expense_ratio_avg (projr (fst (generate_basic_report
        \<lparr>data = Some example_rows, report_summary = None\<rparr>))) = Fin 70
   \<and> Fin 30 \<noteq> Fin ((10 + 100) / (100 + 200) * 100)"
  using profit_margin_is_mean_of_row_ratios
    [of "\<lparr>data = Some example_rows, report_summary = None\<rparr>" example_rows
        "Object [Some ''A'', Some ''B'']" "[100, 200]" "[90, 100]" "[10, 100]"]
  by (auto simp: example_rows_def optional_numeric_def has_column_def columns_def numeric_def)

text \<open>
  Claim C6. On a loaded table that lacks one of Company, Revenue, Expenses, Net\_Income,
  \<^verbatim>\<open>generate_basic_report\<close> fails with the KeyError that names a missing required
  column (the first one in that order), and the generator is unchanged. Revenue and
  expenses, where the table has them, hold numbers, as in the data model.
\<close>

theorem missing_column_is_key_error:
  assumes "data g = Some df"
    and "\<exists>c\<in>set required_columns. \<not> has_column df c"
    and "optional_numeric df ''Revenue''" and "optional_numeric df ''Expenses''"
  shows "\<exists>c\<in>set required_columns. \<not> has_column df c
           \<and> generate_basic_report g = (Inl (KeyError [c]), g)"
proof -
  have rep: "generate_basic_report g = (Inl e, g)" if "basic_metrics df = Inl e" for e
    using that assms(1) by (simp add: generate_basic_report_def bindE_def)
  show ?thesis
  proof (cases "has_column df ''Company''")
    case False
    then have "basic_metrics df = Inl (KeyError [''Company''])"
      by (simp add: basic_metrics_def getitem_None bindE_def)
    with False rep show ?thesis by (auto simp: required_columns_def)
  next
    case c: True
    then obtain names where names: "map_of df ''Company'' = Some names" by (rule has_columnE)
    show ?thesis
    proof (cases "has_column df ''Revenue''")
      case False
      then have "basic_metrics df = Inl (KeyError [''Revenue''])"
        using names by (simp add: basic_metrics_def getitem_None getitem_Some bindE_def)
      with False rep show ?thesis by (auto simp: required_columns_def)
    next
      case r: True
      with assms(3) obtain revs where "numeric df ''Revenue'' revs"
        using optional_numericE by blast
      then obtain rc where rc: "map_of df ''Revenue'' = Some rc" "numeric_values rc = Some revs"
        by (rule numericE)
      from col_sum_numeric [OF rc(2)] obtain tr where tr: "col_sum rc = Inr tr" by blast
      show ?thesis
      proof (cases "has_column df ''Expenses''")
        case False
        then have "basic_metrics df = Inl (KeyError [''Expenses''])"
          using names rc(1) tr by (simp add: basic_metrics_def getitem_None getitem_Some bindE_def)
        with False rep show ?thesis by (auto simp: required_columns_def)
      next
        case e: True
        with assms(4) obtain exps where "numeric df ''Expenses'' exps"
          using optional_numericE by blast
        then obtain ec where ec: "map_of df ''Expenses'' = Some ec" "numeric_values ec = Some exps"
          by (rule numericE)
        from col_sum_numeric [OF ec(2)] obtain te where te: "col_sum ec = Inr te" by blast
        from assms(2) c r e have n: "\<not> has_column df ''Net_Income''"
          by (auto simp: required_columns_def)
        then have "basic_metrics df = Inl (KeyError [''Net_Income''])"
          using names rc(1) tr ec(1) te
          by (simp add: basic_metrics_def getitem_None getitem_Some bindE_def)
        with n rep show ?thesis by (auto simp: required_columns_def)
      qed
    qed
  qed
qed

theorem missing_column_is_key_error_witness:
  "generate_basic_report \<lparr>data = Some no_expenses, report_summary = None\<rparr>
     = (Inl (KeyError [''Expenses'']), \<lparr>data = Some no_expenses, report_summary = None\<rparr>)"
  using missing_column_is_key_error
    [of "\<lparr>data = Some no_expenses, report_summary = None\<rparr>" no_expenses]
  by (auto simp: no_expenses_def required_columns_def has_column_def columns_def
      optional_numeric_def numeric_column_def)

subsection \<open>Sums of integer columns\<close>








subsection \<open>Sector analysis\<close>

text \<open>
  Claim C7. On a loaded table without a Sector column, \<^verbatim>\<open>get_sector_analysis\<close> returns
  the empty frame and raises nothing; the generator is unchanged.
\<close>

theorem no_sector_column_gives_empty_frame:
  assumes "data g = Some df" and "\<not> has_column df ''Sector''"
  shows "get_sector_analysis g = (Inr [], g)"
  using assms by (simp add: get_sector_analysis_def has_column_def)

theorem no_sector_column_gives_empty_frame_witness:
  "get_sector_analysis \<lparr>data = Some example_rows, report_summary = None\<rparr>
     = (Inr [], \<lparr>data = Some example_rows, report_summary = None\<rparr>)"
  using no_sector_column_gives_empty_frame
    [of "\<lparr>data = Some example_rows, report_summary = None\<rparr>" example_rows]
  by (simp add: example_rows_def has_column_def columns_def)

subsection \<open>Top performers\<close>

lemma columns_take_rows: "columns (map (\<lambda>(name, col). (name, take_rows idx col)) df) = columns df"
  by (induction df) (auto simp: columns_def)

lemma nlargest_columns: "nlargest n metric df = Inr tp \<Longrightarrow> columns tp = columns df"
  by (auto simp: nlargest_def bindE_def columns_take_rows split: sum.splits)

lemma nlargest_rows_numeric:
  "numeric_values c = Some xs \<Longrightarrow> \<exists>idx. nlargest_rows n c = Inr idx"
  by (cases c) (simp_all add: Let_def)

lemma nlargest_numeric:
  assumes "numeric_column df metric"
  shows "\<exists>tp. nlargest n metric df = Inr tp"
proof -
  from assms obtain xs where "numeric df metric xs" by (rule numeric_columnE)
  then obtain c where c: "map_of df metric = Some c" "numeric_values c = Some xs"
    by (rule numericE)
  from nlargest_rows_numeric [OF c(2)] obtain idx where "nlargest_rows n c = Inr idx" by blast
  with c(1) show ?thesis by (simp add: nlargest_def getitem_Some bindE_def)
qed

text \<open>
  Claim C10. On a loaded table with the four required columns and no Sector column,
  \<^verbatim>\<open>identify_top_performers\<close> raises an error even for a metric that is a column of
  numbers: the selection of the Sector column from the ranked rows is a KeyError.
\<close>

theorem top_performers_need_sector:
  assumes "data g = Some df"
    and "\<forall>c\<in>set required_columns. has_column df c"
    and "\<not> has_column df ''Sector''"
    and "numeric_column df metric"
  shows "identify_top_performers g metric top_n = (Inl (KeyError [''Sector'']), g)"
proof -
  have m: "metric \<in> set (columns df)"
    using assms(4) numeric_columnE numeric_has_column has_column_def by metis
  from nlargest_numeric [OF assms(4)] obtain tp where tp: "nlargest top_n metric df = Inr tp"
    by blast
  then have cols: "columns tp = columns df" by (rule nlargest_columns)
  have "filter (\<lambda>n. n \<notin> set (columns df))
          [''Company'', ''Revenue'', ''Expenses'', ''Net_Income'', ''Sector''] = [''Sector'']"
    using assms(2,3) by (simp add: required_columns_def has_column_def)
  then have "select_columns tp [''Company'', ''Revenue'', ''Expenses'', ''Net_Income'', ''Sector'']
      = Inl (KeyError [''Sector''])"
    unfolding select_columns_def cols by (simp only: Let_def) simp
  with assms(1) m tp show ?thesis
    by (simp add: identify_top_performers_def bindE_def)
qed

theorem top_performers_need_sector_witness:
  "identify_top_performers \<lparr>data = Some example_rows, report_summary = None\<rparr> ''Net_Income'' 1
     = (Inl (KeyError [''Sector'']), \<lparr>data = Some example_rows, report_summary = None\<rparr>)"
  using top_performers_need_sector
    [of "\<lparr>data = Some example_rows, report_summary = None\<rparr>" example_rows "''Net_Income''" 1]
  by (simp add: example_rows_def required_columns_def has_column_def columns_def
      numeric_column_def)

subsection \<open>Risk assessment\<close>

lemma map_of_setitem:
  "map_of (setitem df k c) k' = (if k' = k then Some c else map_of df k')"
  by (induction df k c rule: setitem.induct) auto

lemma columns_setitem:
  "columns (setitem df k c) = (if k \<in> set (columns df) then columns df else columns df @ [k])"
  by (induction df k c rule: setitem.induct) (auto simp: columns_def)

lemma volatility_score_numeric:
  assumes "map_of df ''Net_Income'' = Some ic" and "numeric_values ic = Some incs"
  shows "volatility_score df = Inr (Float64 (volatility incs))"
  using assms
  by (simp add: volatility_score_def getitem_Some bindE_def col_mean_numeric col_std_numeric
      col_sub_def col_abs_def col_over_def numbers_numeric volatility_def comp_def)

lemma risk_assessment_numeric:
  assumes "data g = Some df"
    and "numeric df ''Revenue'' revs"
    and "numeric df ''Expenses'' exps"
    and "numeric df ''Net_Income'' incs"
  shows "snd (generate_risk_assessment g) = g\<lparr>data := Some (with_risk_columns df revs exps incs)\<rparr>"
    and "has_column df ''Company'' \<Longrightarrow>
          \<exists>r. fst (generate_risk_assessment g) = Inr r
             \<and> average_volatility r = nanmean (volatility incs)"
    and "\<not> has_column df ''Company'' \<Longrightarrow>
          fst (generate_risk_assessment g) = Inl (KeyError [''Company''])"
proof -
  let ?debt = "Float64 (map2 fdiv exps revs)"
  let ?df1 = "setitem df ''Debt_to_Revenue'' ?debt"
  let ?vol = "Float64 (volatility incs)"
  let ?df2 = "setitem ?df1 ''Volatility_Score'' ?vol"
  from assms(2) obtain rc where rc: "map_of df ''Revenue'' = Some rc" "numeric_values rc = Some revs"
    by (rule numericE)
  from assms(3) obtain ec where ec: "map_of df ''Expenses'' = Some ec" "numeric_values ec = Some exps"
    by (rule numericE)
  from assms(4) obtain ic where ic: "map_of df ''Net_Income'' = Some ic" "numeric_values ic = Some incs"
    by (rule numericE)
  have d: "debt_to_revenue df = Inr ?debt"
    using rc ec by (simp add: debt_to_revenue_def getitem_Some bindE_def col_div_numeric)
  have "map_of ?df1 ''Net_Income'' = Some ic"
    using ic(1) by (simp add: map_of_setitem)
  then have v: "volatility_score ?df1 = Inr ?vol"
    using ic(2) by (rule volatility_score_numeric)
  have run: "generate_risk_assessment g = (risk_metrics ?df2, g\<lparr>data := Some ?df2\<rparr>)"
    using assms(1) d v by (simp add: generate_risk_assessment_def Let_def)
  then show "snd (generate_risk_assessment g) = g\<lparr>data := Some (with_risk_columns df revs exps incs)\<rparr>"
    by (simp add: with_risk_columns_def)
  have cols: "map_of ?df2 ''Debt_to_Revenue'' = Some ?debt"
    "map_of ?df2 ''Volatility_Score'' = Some ?vol"
    "map_of ?df2 ''Net_Income'' = Some ic"
    "map_of ?df2 ''Revenue'' = Some rc"
    "map_of ?df2 ''Company'' = map_of df ''Company''"
    using rc(1) ic(1) by (simp_all add: map_of_setitem)
  have margin: "col_div ic rc = Inr (Float64 (map2 fdiv incs revs))"
    using ic(2) rc(2) by (rule col_div_numeric)
  {
    assume "has_column df ''Company''"
    then obtain names where "map_of ?df2 ''Company'' = Some names"
      using cols(5) by (auto simp: has_column_map_of)
    with cols(1-4) margin
    have "\<exists>r. risk_metrics ?df2 = Inr r \<and> average_volatility r = nanmean (volatility incs)"
      by (simp add: risk_metrics_def getitem_Some bindE_def col_gt_def col_lt_def
          col_mean_Float64)
    with run show "\<exists>r. fst (generate_risk_assessment g) = Inr r
             \<and> average_volatility r = nanmean (volatility incs)"
      by simp
  }
  {
    assume "\<not> has_column df ''Company''"
    then have "map_of ?df2 ''Company'' = None"
      using cols(5) by (simp add: has_column_map_of)
    with cols(1-4) margin have "risk_metrics ?df2 = Inl (KeyError [''Company''])"
      by (simp add: risk_metrics_def getitem_Some bindE_def getitem_def col_gt_def col_lt_def
          col_mean_Float64)
    with run show "fst (generate_risk_assessment g) = Inl (KeyError [''Company''])"
      by simp
  }
qed





lemma fdiv_NaN_right: "fdiv x NaN = NaN"
  by (cases x) auto






subsection \<open>What the calls do to the loaded table\<close>

lemma basic_report_keeps_data: "data (snd (generate_basic_report g)) = data g"
  by (simp add: generate_basic_report_def split: option.splits sum.splits)

lemma company_insights_keep_data: "data (snd (get_company_insights g)) = data g"
  by (simp add: get_company_insights_def split: option.splits)

lemma sector_analysis_keeps_data: "data (snd (get_sector_analysis g)) = data g"
  by (simp add: get_sector_analysis_def split: option.splits)

lemma top_performers_keep_data: "data (snd (identify_top_performers g metric n)) = data g"
  by (simp add: identify_top_performers_def split: option.splits)

lemma with_risk_columns_map_of:
  "map_of (with_risk_columns df revs exps incs) name =
     (if name = ''Volatility_Score'' then Some (Float64 (volatility incs))
      else if name = ''Debt_to_Revenue'' then Some (Float64 (map2 fdiv exps revs))
      else map_of df name)"
  by (simp add: with_risk_columns_def map_of_setitem)

lemma with_risk_columns_set:
  "set (columns (with_risk_columns df revs exps incs))
     = set (columns df) \<union> {''Debt_to_Revenue'', ''Volatility_Score''}"
  by (auto simp: with_risk_columns_def columns_setitem)

lemma with_risk_columns_new:
  "''Debt_to_Revenue'' \<notin> set (columns df) \<Longrightarrow> ''Volatility_Score'' \<notin> set (columns df) \<Longrightarrow>
   columns (with_risk_columns df revs exps incs)
     = columns df @ [''Debt_to_Revenue'', ''Volatility_Score'']"
  by (simp add: with_risk_columns_def columns_setitem)

text \<open>
  Claim C9. \<^verbatim>\<open>generate_basic_report\<close>, \<^verbatim>\<open>get_company_insights\<close> and
  \<^verbatim>\<open>get_sector_analysis\<close> leave the loaded table as it is. \<^verbatim>\<open>generate_risk_assessment\<close>
  changes it: after a call on a table whose revenue, expenses and net income are
  numbers, the stored table has the columns Debt\_to\_Revenue and Volatility\_Score
  (appended when the table did not have them), every other column is as before, and the
  calls that follow on the same generator see and keep the table with the two columns.
\<close>

theorem risk_assessment_alone_changes_the_table:
  assumes "data g = Some df"
    and "numeric df ''Revenue'' revs"
    and "numeric df ''Expenses'' exps"
    and "numeric df ''Net_Income'' incs"
  shows "data (snd (generate_basic_report g)) = Some df
       \<and> data (snd (get_company_insights g)) = Some df
       \<and> data (snd (get_sector_analysis g)) = Some df
       \<and> (\<exists>df'. data (snd (generate_risk_assessment g)) = Some df'
            \<and> set (columns df') = set (columns df) \<union> {''Debt_to_Revenue'', ''Volatility_Score''}
            \<and> (''Debt_to_Revenue'' \<notin> set (columns df) \<and> ''Volatility_Score'' \<notin> set (columns df)
                 \<longrightarrow> columns df' = columns df @ [''Debt_to_Revenue'', ''Volatility_Score''])
            \<and> map_of df' ''Debt_to_Revenue'' = Some (Float64 (map2 fdiv exps revs))
            \<and> map_of df' ''Volatility_Score'' = Some (Float64 (volatility incs))
            \<and> (\<forall>name. name \<noteq> ''Debt_to_Revenue'' \<and> name \<noteq> ''Volatility_Score''
                 \<longrightarrow> map_of df' name = map_of df name)
            \<and> data (snd (generate_basic_report (snd (generate_risk_assessment g)))) = Some df'
            \<and> data (snd (get_company_insights (snd (generate_risk_assessment g)))) = Some df'
            \<and> data (snd (get_sector_analysis (snd (generate_risk_assessment g)))) = Some df'
            \<and> data (snd (identify_top_performers (snd (generate_risk_assessment g)) metric n))
                 = Some df')"
proof -
  let ?df' = "with_risk_columns df revs exps incs"
  have after: "data (snd (generate_risk_assessment g)) = Some ?df'"
    using risk_assessment_numeric(1) [OF assms] by simp
  have "set (columns ?df') = set (columns df) \<union> {''Debt_to_Revenue'', ''Volatility_Score''}"
    by (rule with_risk_columns_set)
  moreover have "''Debt_to_Revenue'' \<notin> set (columns df) \<and> ''Volatility_Score'' \<notin> set (columns df)
       \<longrightarrow> columns ?df' = columns df @ [''Debt_to_Revenue'', ''Volatility_Score'']"
    by (simp add: with_risk_columns_new)
  moreover have "map_of ?df' ''Debt_to_Revenue'' = Some (Float64 (map2 fdiv exps revs))"
    "map_of ?df' ''Volatility_Score'' = Some (Float64 (volatility incs))"
    "\<forall>name. name \<noteq> ''Debt_to_Revenue'' \<and> name \<noteq> ''Volatility_Score''
       \<longrightarrow> map_of ?df' name = map_of df name"
    by (simp_all add: with_risk_columns_map_of)
  moreover have "data (snd (generate_basic_report (snd (generate_risk_assessment g)))) = Some ?df'"
    "data (snd (get_company_insights (snd (generate_risk_assessment g)))) = Some ?df'"
    "data (snd (get_sector_analysis (snd (generate_risk_assessment g)))) = Some ?df'"
    "data (snd (identify_top_performers (snd (generate_risk_assessment g)) metric n)) = Some ?df'"
    by (simp_all only: basic_report_keeps_data company_insights_keep_data
        sector_analysis_keeps_data top_performers_keep_data after)
  ultimately have "\<exists>df'. data (snd (generate_risk_assessment g)) = Some df'
            \<and> set (columns df') = set (columns df) \<union> {''Debt_to_Revenue'', ''Volatility_Score''}
            \<and> (''Debt_to_Revenue'' \<notin> set (columns df) \<and> ''Volatility_Score'' \<notin> set (columns df)
                 \<longrightarrow> columns df' = columns df @ [''Debt_to_Revenue'', ''Volatility_Score''])
            \<and> map_of df' ''Debt_to_Revenue'' = Some (Float64 (map2 fdiv exps revs))
            \<and> map_of df' ''Volatility_Score'' = Some (Float64 (volatility incs))
            \<and> (\<forall>name. name \<noteq> ''Debt_to_Revenue'' \<and> name \<noteq> ''Volatility_Score''
                 \<longrightarrow> map_of df' name = map_of df name)
            \<and> data (snd (generate_basic_report (snd (generate_risk_assessment g)))) = Some df'
            \<and> data (snd (get_company_insights (snd (generate_risk_assessment g)))) = Some df'
            \<and> data (snd (get_sector_analysis (snd (generate_risk_assessment g)))) = Some df'
            \<and> data (snd (identify_top_performers (snd (generate_risk_assessment g)) metric n))
                 = Some df'"
    using after by (intro exI [of _ ?df']) (simp only: simp_thms)
  then show ?thesis
    using assms(1) basic_report_keeps_data [of g] company_insights_keep_data [of g]
      sector_analysis_keeps_data [of g]
    by (simp only: simp_thms)
qed

theorem risk_assessment_alone_changes_the_table_witness:
  "data (snd (generate_basic_report \<lparr>data = Some one_row, report_summary = None\<rparr>)) = Some one_row
   \<and> data (snd (get_company_insights \<lparr>data = Some one_row, report_summary = None\<rparr>)) = Some one_row
   \<and> data (snd (get_sector_analysis \<lparr>data = Some one_row, report_summary = None\<rparr>)) = Some one_row
   \<and> data (snd (generate_risk_assessment \<lparr>data = Some one_row, report_summary = None\<rparr>))
       = Some (one_row @ [(''Debt_to_Revenue'', Float64 [Fin (9 / 10)]),
                          (''Volatility_Score'', Float64 [NaN])])
   \<and> data (snd (get_company_insights
        (snd (generate_risk_assessment \<lparr>data = Some one_row, report_summary = None\<rparr>))))
       = Some (one_row @ [(''Debt_to_Revenue'', Float64 [Fin (9 / 10)]),
                          (''Volatility_Score'', Float64 [NaN])])"
  using risk_assessment_alone_changes_the_table
    [of "\<lparr>data = Some one_row, report_summary = None\<rparr>" one_row "[Fin 100]" "[Fin 90]" "[Fin 10]"]
    risk_assessment_numeric(1)
    [of "\<lparr>data = Some one_row, report_summary = None\<rparr>" one_row "[Fin 100]" "[Fin 90]" "[Fin 10]"]
  by (simp add: one_row_def with_risk_columns_def volatility_def nanstd_def dropna_def Let_def
      fdiv_NaN_right company_insights_keep_data numeric_def)

subsection \<open>Tables without a volatility signal\<close>






subsection \<open>Metrics that are not numbers\<close>

lemma map_of_take_rows:
  "map_of (map (\<lambda>(name, col). (name, take_rows idx col)) df) name
     = map_option (take_rows idx) (map_of df name)"
  by (induction df) auto

lemma numeric_values_take_rows:
  "numeric_values c = Some xs \<Longrightarrow> \<exists>ys. numeric_values (take_rows idx c) = Some ys"
  by (cases c) auto

lemma percent_numeric:
  assumes "numeric_values a = Some xs" and "numeric_values b = Some ys"
  shows "percent a b
     = Inr (Float64 (map round2 (map (\<lambda>x. fmul x (Fin 100)) (map2 fdiv xs ys))))"
  using assms by (simp add: percent_def col_div_numeric bindE_def)

text \<open>
  Claim C5, as the code has it. A metric that is not a column of the loaded table is
  rejected with the ValueError of the function's own check; a metric that names a column
  of strings is rejected by \<^verbatim>\<open>nlargest\<close> with a TypeError. A metric that names a column
  of timestamps is not rejected: on a table that has the columns Company, Expenses and
  Sector, and whose Revenue and Net\_Income hold numbers, the call returns a frame.
\<close>

theorem rejected_metrics:
  assumes "data g = Some df"
  shows "(\<not> has_column df metric
            \<longrightarrow> identify_top_performers g metric top_n = (Inl (metric_not_found metric), g))
       \<and> (map_of df metric = Some (Object xs)
            \<longrightarrow> identify_top_performers g metric top_n = (Inl TypeError, g))
       \<and> (map_of df metric = Some (Datetime64 ts)
            \<and> has_column df ''Company'' \<and> has_column df ''Expenses'' \<and> has_column df ''Sector''
            \<and> numeric_column df ''Revenue'' \<and> numeric_column df ''Net_Income''
            \<longrightarrow> (\<exists>res. identify_top_performers g metric top_n = (Inr res, g)))"
proof (intro conjI impI)
  assume "\<not> has_column df metric"
  with assms show "identify_top_performers g metric top_n = (Inl (metric_not_found metric), g)"
    by (simp add: identify_top_performers_def has_column_def)
next
  assume c: "map_of df metric = Some (Object xs)"
  then have "metric \<in> set (columns df)"
    by (metis has_column_def has_column_map_of option.distinct(1))
  moreover have "nlargest top_n metric df = Inl TypeError"
    using c by (simp add: nlargest_def getitem_Some bindE_def)
  ultimately show "identify_top_performers g metric top_n = (Inl TypeError, g)"
    using assms by (simp add: identify_top_performers_def bindE_def)
next
  assume h: "map_of df metric = Some (Datetime64 ts)
            \<and> has_column df ''Company'' \<and> has_column df ''Expenses'' \<and> has_column df ''Sector''
            \<and> numeric_column df ''Revenue'' \<and> numeric_column df ''Net_Income''"
  then have m: "metric \<in> set (columns df)"
    by (metis has_column_def has_column_map_of option.distinct(1))
  from h obtain revs incs where n: "numeric df ''Revenue'' revs" "numeric df ''Net_Income'' incs"
    by (meson numeric_columnE)
  from n(1) obtain rc where rc: "map_of df ''Revenue'' = Some rc" "numeric_values rc = Some revs"
    by (rule numericE)
  from n(2) obtain ic where ic: "map_of df ''Net_Income'' = Some ic" "numeric_values ic = Some incs"
    by (rule numericE)
  obtain idx where idx: "nlargest_rows top_n (Datetime64 ts) = Inr idx"
    by (simp add: Let_def)
  let ?tp = "map (\<lambda>(name, col). (name, take_rows idx col)) df"
  let ?names = "[''Company'', ''Revenue'', ''Expenses'', ''Net_Income'', ''Sector'']"
  let ?sel = "map (\<lambda>n. (n, the (map_of ?tp n))) ?names"
  have tp: "nlargest top_n metric df = Inr ?tp"
    using h idx by (simp add: nlargest_def getitem_Some bindE_def)
  have "filter (\<lambda>n. n \<notin> set (columns df)) ?names = []"
    using h n by (simp add: has_column_def [symmetric] numeric_has_column)
  then have sel: "select_columns ?tp ?names = Inr ?sel"
    unfolding select_columns_def columns_take_rows by (simp only: Let_def) simp
  have "map_of ?sel ''Net_Income'' = Some (take_rows idx ic)"
    "map_of ?sel ''Revenue'' = Some (take_rows idx rc)"
    using ic(1) rc(1) by (simp_all add: map_of_take_rows)
  moreover obtain pm where "percent (take_rows idx ic) (take_rows idx rc) = Inr pm"
    using percent_numeric numeric_values_take_rows [OF ic(2), of idx]
      numeric_values_take_rows [OF rc(2), of idx]
    by blast
  ultimately have "profit_margin_column ?sel = Inr pm"
    by (simp add: profit_margin_column_def getitem_Some bindE_def)
  with assms m tp sel
  have "identify_top_performers g metric top_n = (Inr (setitem ?sel ''Profit_Margin'' pm), g)"
    by (simp add: identify_top_performers_def bindE_def)
  then show "\<exists>res. identify_top_performers g metric top_n = (Inr res, g)"
    by blast
qed

theorem rejected_metrics_witness:
  "identify_top_performers \<lparr>data = Some with_dates, report_summary = None\<rparr> ''Profit'' 5
     = (Inl (metric_not_found ''Profit''), \<lparr>data = Some with_dates, report_summary = None\<rparr>)
   \<and> identify_top_performers \<lparr>data = Some with_dates, report_summary = None\<rparr> ''Company'' 5
     = (Inl TypeError, \<lparr>data = Some with_dates, report_summary = None\<rparr>)
   \<and> \<not> isl (fst (identify_top_performers \<lparr>data = Some with_dates, report_summary = None\<rparr>
         ''Date'' 5))"
  using rejected_metrics
    [of "\<lparr>data = Some with_dates, report_summary = None\<rparr>" with_dates "''Profit''" 5]
    rejected_metrics
    [of "\<lparr>data = Some with_dates, report_summary = None\<rparr>" with_dates "''Company''" 5
        "[Some ''A'', Some ''B'']"]
    rejected_metrics
    [of "\<lparr>data = Some with_dates, report_summary = None\<rparr>" with_dates "''Date''" 5
        "[]" "[Some 1711843200, Some 1719705600]"]
  by (auto simp: with_dates_def has_column_def columns_def numeric_column_def)

text \<open>
  Claim C5 as stated fails for a column that is present and not numeric. On the two rows
  of the example with their dates and sectors, the metric Date is accepted: the call
  returns the two rows, the one of the later date first.
\<close>

theorem date_metric_is_accepted:
  "fst (identify_top_performers \<lparr>data = Some with_dates, report_summary = None\<rparr> ''Date'' 5)
     = Inr [(''Company'', Object [Some ''B'', Some ''A'']),
            (''Revenue'', Float64 [Fin 200, Fin 100]),
            (''Expenses'', Float64 [Fin 100, Fin 90]),
            (''Net_Income'', Float64 [Fin 100, Fin 10]),
            (''Sector'', Object [Some ''Energy'', Some ''Retail'']),
            (''Profit_Margin'', Float64 [Fin 50, Fin 10])]"
  by (simp add: identify_top_performers_def with_dates_def columns_def nlargest_def getitem_def
      bindE_def enumerate_rows_def sort_desc_def select_columns_def profit_margin_column_def
      percent_def col_div_def pick_def rint_def upt_rec Let_def)

subsection \<open>Company insights\<close>












text \<open>
  The dictionary for \<^verbatim>\<open>agg\<close> names Market\_Cap also when the table has no such column,
  and the check of \<^verbatim>\<open>agg\<close> then raises: the worked example has no company insights.
\<close>

lemma company_insights_without_market_cap:
  "fst (get_company_insights \<lparr>data = Some example_rows, report_summary = None\<rparr>)
     = Inl (KeyError [''Market_Cap''])"
  by (simp add: get_company_insights_def company_metrics_def example_rows_def getitem_def
      bindE_def agg_check_def columns_def)

subsection \<open>The lists in the prompts\<close>

lemma join_cons: "join sep (v # ws) = v @ concat (map (\<lambda>w. sep @ w) ws)"
  by (induction ws arbitrary: v) simp_all

lemma join_mid:
  "join sep (us @ v # ws) = concat (map (\<lambda>u. u @ sep) us) @ v @ concat (map (\<lambda>w. sep @ w) ws)"
proof (induction us)
  case Nil
  show ?case by (simp add: join_cons)
next
  case (Cons u us)
  obtain y ys where "us @ v # ws = y # ys" by (cases us) simp_all
  then have "join sep (u # us @ v # ws) = u @ sep @ join sep (us @ v # ws)" by simp
  with Cons show ?case by simp
qed

lemma template_split: "\<exists>pre post. \<forall>x. template (as @ x # bs) = pre @ x @ post"
proof -
  let ?ind = "\<lambda>l. replicate 8 CHR '' '' @ l"
  have "template (as @ x # bs)
      = (concat (map (\<lambda>u. u @ newline) ([] # map ?ind as)) @ replicate 8 CHR '' '') @ x
        @ concat (map (\<lambda>w. newline @ w) (map ?ind bs @ [replicate 8 CHR '' '']))" for x
    using join_mid [of newline "[] # map ?ind as" "?ind x" "map ?ind bs @ [replicate 8 CHR '' '']"]
    by (simp add: template_def)
  then show ?thesis by blast
qed

lemma join_snoc: "join sep (x # xs @ [y]) = join sep (x # xs) @ sep @ y"
  by (induction xs arbitrary: x) auto

lemma sector_prompt_inject:
  "sector_prompt xs = sector_prompt ys \<Longrightarrow> sector_info xs = sector_info ys"
  by (simp add: sector_prompt_def template_def newline_def)

lemma failing_remote_ask: "ask failing_remote prompt tokens temp unavailable = unavailable @ '': '' @ prompt"
  by (simp add: ask_def failing_remote_def)

text \<open>
  Claim C8, as the code has it. The prompt that \<^verbatim>\<open>analyze_company_performance\<close> sends
  is a fixed opening, one line for each of the first ten companies of the list, and a
  fixed ending. The prompt that \<^verbatim>\<open>generate_investment_recommendations\<close> sends has one
  line for each of the first five performers. The prompt that
  \<^verbatim>\<open>generate_sector_insights\<close> sends has one line for every sector of the list,
  whatever its length. On an empty list the last two return their fixed sentence and
  send nothing.
\<close>

theorem prompt_lists:
  "(\<exists>pre post. \<forall>llm company_data.
      analyze_company_performance llm company_data
        = ask llm (pre @ join newline (map company_line (take 10 company_data)) @ post)
            350 (6 / 10) ''Company analysis unavailable'')
   \<and> (\<exists>pre post. \<forall>llm top_performers.
      generate_investment_recommendations llm top_performers
        = (if top_performers = []
           then ''Investment recommendations not available - insufficient data.''
           else ask llm (pre @ join newline (map performer_line (take 5 top_performers)) @ post)
                  350 (6 / 10) ''Investment recommendations unavailable''))
   \<and> (\<exists>pre post. \<forall>llm sector_data.
      generate_sector_insights llm sector_data
        = (if sector_data = []
           then ''Sector analysis not available - insufficient sector data.''
           else ask llm (pre @ join newline (map sector_line sector_data) @ post)
                  300 (6 / 10) ''Sector analysis unavailable''))"
proof (intro conjI)
  obtain pre post where "\<forall>x. template
     ([''Analyze the performance of these companies based on their financial metrics:'', '''']
      @ x #
      ['''',
      ''Provide insights on:'',
      ''1. Which companies show the strongest financial health'',
      ''2. Companies that may need attention or restructuring'',
      ''3. Industry patterns or trends you observe'',
      ''4. Recommendations for portfolio management'',
      '''',
      ''Be specific and data-driven in your analysis (max 250 words).'']) = pre @ x @ post"
    using template_split by blast
  then have "\<forall>llm company_data. analyze_company_performance llm company_data
        = ask llm (pre @ join newline (map company_line (take 10 company_data)) @ post)
            350 (6 / 10) ''Company analysis unavailable''"
    by (simp add: analyze_company_performance_def company_prompt_def company_info_def)
  then show "\<exists>pre post. \<forall>llm company_data.
      analyze_company_performance llm company_data
        = ask llm (pre @ join newline (map company_line (take 10 company_data)) @ post)
            350 (6 / 10) ''Company analysis unavailable''"
    by blast
next
  obtain pre post where "\<forall>x. template
     ([''Based on the top performing companies, provide investment recommendations:'',
      '''',
      ''Top Performers:'']
      @ x #
      ['''',
      ''Provide:'',
      ''1. Investment attractiveness ranking'',
      ''2. Growth potential assessment'',
      ''3. Risk-adjusted return expectations'',
      ''4. Portfolio allocation suggestions'',
      ''5. Timeline recommendations (short/medium/long term)'',
      '''',
      ''Focus on practical investment advice (max 250 words).'']) = pre @ x @ post"
    using template_split by blast
  then have "\<forall>llm top_performers.
      generate_investment_recommendations llm top_performers
        = (if top_performers = []
           then ''Investment recommendations not available - insufficient data.''
           else ask llm (pre @ join newline (map performer_line (take 5 top_performers)) @ post)
                  350 (6 / 10) ''Investment recommendations unavailable'')"
    by (simp add: generate_investment_recommendations_def investment_prompt_def performer_info_def)
  then show "\<exists>pre post. \<forall>llm top_performers.
      generate_investment_recommendations llm top_performers
        = (if top_performers = []
           then ''Investment recommendations not available - insufficient data.''
           else ask llm (pre @ join newline (map performer_line (take 5 top_performers)) @ post)
                  350 (6 / 10) ''Investment recommendations unavailable'')"
    by blast
next
  obtain pre post where "\<forall>x. template
     ([''Analyze sector performance based on the following data:'', '''']
      @ x #
      ['''',
      ''Provide insights on:'',
      ''1. Best performing sectors and why'',
      ''2. Sectors facing challenges'',
      ''3. Market opportunities and threats'',
      ''4. Investment recommendations by sector'',
      '''',
      ''Focus on actionable insights for investors and business leaders (max 200 words).''])
      = pre @ x @ post"
    using template_split by blast
  then have "\<forall>llm sector_data.
      generate_sector_insights llm sector_data
        = (if sector_data = []
           then ''Sector analysis not available - insufficient sector data.''
           else ask llm (pre @ join newline (map sector_line sector_data) @ post)
                  300 (6 / 10) ''Sector analysis unavailable'')"
    by (simp add: generate_sector_insights_def sector_prompt_def sector_info_def)
  then show "\<exists>pre post. \<forall>llm sector_data.
      generate_sector_insights llm sector_data
        = (if sector_data = []
           then ''Sector analysis not available - insufficient sector data.''
           else ask llm (pre @ join newline (map sector_line sector_data) @ post)
                  300 (6 / 10) ''Sector analysis unavailable'')"
    by blast
qed

lemma two_sector_lines:
  "join newline (map sector_line [numbered_sector 1, numbered_sector 2])
     \<noteq> join newline (map sector_line [numbered_sector 1])"
  by (simp add: newline_def)

theorem prompt_lists_witness:
  "analyze_company_performance failing_remote eleven_sectors
     = analyze_company_performance failing_remote (take 10 eleven_sectors)
   \<and> generate_investment_recommendations failing_remote eleven_sectors
     = generate_investment_recommendations failing_remote (take 5 eleven_sectors)
   \<and> generate_sector_insights failing_remote [numbered_sector 1, numbered_sector 2]
     \<noteq> generate_sector_insights failing_remote [numbered_sector 1]"
proof -
  from prompt_lists obtain pre post where c: "\<And>llm company_data.
      analyze_company_performance llm company_data
        = ask llm (pre @ join newline (map company_line (take 10 company_data)) @ post)
            350 (6 / 10) ''Company analysis unavailable''"
    by blast
  from prompt_lists obtain pre' post' where p: "\<And>llm top_performers.
      generate_investment_recommendations llm top_performers
        = (if top_performers = []
           then ''Investment recommendations not available - insufficient data.''
           else ask llm (pre' @ join newline (map performer_line (take 5 top_performers)) @ post')
                  350 (6 / 10) ''Investment recommendations unavailable'')"
    by blast
  from prompt_lists obtain pre'' post'' where s: "\<And>llm sector_data.
      generate_sector_insights llm sector_data
        = (if sector_data = []
           then ''Sector analysis not available - insufficient sector data.''
           else ask llm (pre'' @ join newline (map sector_line sector_data) @ post'')
                  300 (6 / 10) ''Sector analysis unavailable'')"
    by blast
  have "analyze_company_performance failing_remote eleven_sectors
     = analyze_company_performance failing_remote (take 10 eleven_sectors)"
    by (simp add: c)
  moreover have "generate_investment_recommendations failing_remote eleven_sectors
     = generate_investment_recommendations failing_remote (take 5 eleven_sectors)"
    by (simp add: p eleven_sectors_def)
  moreover have "generate_sector_insights failing_remote [numbered_sector 1, numbered_sector 2]
     \<noteq> generate_sector_insights failing_remote [numbered_sector 1]"
    using two_sector_lines by (simp add: s failing_remote_ask)
  ultimately show ?thesis by blast
qed

text \<open>
  Claim C8 as stated has the sectors cut to ten. With eleven sectors the text of the
  sectors ends with the line of the eleventh; \<^verbatim>\<open>generate_sector_insights\<close> sends the
  prompt of the eleven (a remote model that fails hands it back in the message), and its
  answer is not the one for the first ten.
\<close>

theorem eleventh_sector_in_prompt:
  "sector_info eleven_sectors
     = sector_info (take 10 eleven_sectors) @ newline
       @ ''- Sector 11: Total Revenue $16,500,000, Companies: 11, Avg Profit Margin: 11.2%''
   \<and> generate_sector_insights failing_remote eleven_sectors
     = ''Sector analysis unavailable: '' @ sector_prompt eleven_sectors
   \<and> generate_sector_insights failing_remote eleven_sectors
     \<noteq> generate_sector_insights failing_remote (take 10 eleven_sectors)"
proof -
  have last: "sector_line (numbered_sector 11)
      = ''- Sector 11: Total Revenue $16,500,000, Companies: 11, Avg Profit Margin: 11.2%''"
    by (simp add: sector_line_def numbered_sector_def get_def show_int_def show_nat.simps
        digit_char_def rint_def commas_def Let_def)
  have info: "sector_info eleven_sectors
      = sector_info (take 10 eleven_sectors) @ newline @ sector_line (numbered_sector 11)"
    by (simp add: eleven_sectors_def sector_info_def)
  then have "sector_info eleven_sectors \<noteq> sector_info (take 10 eleven_sectors)"
    by (simp add: newline_def)
  then have differ: "sector_prompt eleven_sectors \<noteq> sector_prompt (take 10 eleven_sectors)"
    using sector_prompt_inject by blast
  have ne: "eleven_sectors \<noteq> []" "take 10 eleven_sectors \<noteq> []"
    by (simp_all add: eleven_sectors_def)
  have run: "generate_sector_insights failing_remote eleven_sectors
     = ''Sector analysis unavailable: '' @ sector_prompt eleven_sectors"
    using ne(1) by (simp add: generate_sector_insights_def failing_remote_ask)
  have run10: "generate_sector_insights failing_remote (take 10 eleven_sectors)
     = ''Sector analysis unavailable: '' @ sector_prompt (take 10 eleven_sectors)"
    using ne(2) by (simp add: generate_sector_insights_def failing_remote_ask)
  have "generate_sector_insights failing_remote eleven_sectors
     \<noteq> generate_sector_insights failing_remote (take 10 eleven_sectors)"
    using differ by (simp add: run run10)
  with info last run show ?thesis by (simp only: simp_thms)
qed

end
